theory Spec2Isabelle
  imports Main "HOL-Library.Char_ord"
begin

section \<open>The server command of aginx (cmd/server.go)\<close>

text \<open>
  Go strings are byte strings: they are modelled as \<^typ>\<open>string\<close> (lists of 8-bit
  characters). A Go \<open>error\<close> value is modelled by its kind and operands. A call of
  \<open>PanicIfError(err)\<close> with a non-nil error, and a run-time panic of Go itself, end the
  function: every function that can panic returns \<open>panic + 'a\<close>, with \<open>Inl\<close> the panic.
\<close>

datatype error =
    ErrorString string
  | EscapeError string
  | InvalidHostError string
  | InvalidPort string
  | UrlError string string error
  | NotFound

datatype panic =
    PanicIfError error
  | SliceBoundsOutOfRange
  | IndexOutOfRange

subsection \<open>Helpers of the Go standard library used by the command\<close>

text \<open>\<open>strings.HasPrefix\<close>.\<close>

definition HasPrefix :: "string \<Rightarrow> string \<Rightarrow> bool" where
  "HasPrefix s p = (take (length p) s = p)"

text \<open>
  \<open>strings.ToUpper\<close>. A string of ASCII bytes only is mapped byte by byte: the letters
  \<open>a\<close> to \<open>z\<close> become \<open>A\<close> to \<open>Z\<close> and every other byte is kept. For any other string
  Go returns \<open>strings.Map(unicode.ToUpper, s)\<close>, which maps the string rune by rune
  through the Unicode tables; that mapping is the parameter \<open>mapUpper\<close>.
\<close>

definition toUpperByte :: "char \<Rightarrow> char" where
  "toUpperByte c =
     (let n = (of_char c :: nat) in if 97 \<le> n \<and> n \<le> 122 then char_of (n - 32) else c)"

definition isASCII :: "string \<Rightarrow> bool" where
  "isASCII s = list_all (\<lambda>c. c < CHR 0x80) s"

definition ToUpper :: "(string \<Rightarrow> string) \<Rightarrow> string \<Rightarrow> string" where
  "ToUpper mapUpper s = (if isASCII s then map toUpperByte s else mapUpper s)"

text \<open>
  The process environment is a map from names to values; \<open>os.Getenv\<close> returns the empty
  string for a variable that is not set.
\<close>

type_synonym environ = "string \<rightharpoonup> string"

definition Getenv :: "environ \<Rightarrow> string \<Rightarrow> string" where
  "Getenv env k = (case env k of None \<Rightarrow> [] | Some v \<Rightarrow> v)"

text \<open>
  The persistent string flags of the cobra command, with their current values
  (\<open>AddServerFlags\<close> registers \<open>api\<close>, \<open>security\<close>, \<open>cluster\<close> and \<open>expose\<close>).
  \<open>GetString\<close> returns an error for a name that is not a registered string flag.
\<close>

type_synonym flags = "string \<rightharpoonup> string"

definition GetString :: "flags \<Rightarrow> string \<Rightarrow> string \<times> error option" where
  "GetString fl key =
     (case fl key of
        None \<Rightarrow> ([], Some (ErrorString (''flag accessed but not defined: '' @ key)))
      | Some v \<Rightarrow> (v, None))"

subsection \<open>The package net/url of the Go standard library\<close>

text \<open>
  \<open>clusterConfiguration\<close> parses the connection string with \<open>url.Parse\<close> and reads the
  scheme, the host, \<open>EscapedPath()\<close> and \<open>Query().Get("token")\<close> of the result. The
  functions below follow the package as of the Go releases 1.13 to 1.16, byte by byte.
\<close>

record Userinfo =
  username :: string
  password :: string
  passwordSet :: bool

record URL =
  Scheme :: string
  Opaque :: string
  User :: "Userinfo option"
  Host :: string
  Path :: string
  RawPath :: string
  ForceQuery :: bool
  RawQuery :: string
  Fragment :: string

definition new_URL :: URL where
  "new_URL = \<lparr>Scheme = [], Opaque = [], User = None, Host = [], Path = [], RawPath = [],
               ForceQuery = False, RawQuery = [], Fragment = []\<rparr>"

text \<open>\<open>strings.Index\<close> and \<open>strings.LastIndex\<close>; \<open>None\<close> stands for the result \<open>-1\<close>.\<close>

fun Index :: "string \<Rightarrow> string \<Rightarrow> nat option" where
  "Index [] sub = (if sub = [] then Some 0 else None)"
| "Index (c # cs) sub =
     (if HasPrefix (c # cs) sub then Some 0 else map_option Suc (Index cs sub))"

definition LastIndex :: "string \<Rightarrow> string \<Rightarrow> nat option" where
  "LastIndex s sub =
     (case Index (rev s) (rev sub) of
        None \<Rightarrow> None
      | Some j \<Rightarrow> Some (length s - length sub - j))"

text \<open>\<open>strings.IndexAny\<close>: the first index of a byte of \<open>chars\<close>.\<close>

fun IndexAny :: "string \<Rightarrow> string \<Rightarrow> nat option" where
  "IndexAny [] chars = None"
| "IndexAny (c # cs) chars =
     (if c \<in> set chars then Some 0 else map_option Suc (IndexAny cs chars))"

definition HasSuffix :: "string \<Rightarrow> string \<Rightarrow> bool" where
  "HasSuffix s p = (length p \<le> length s \<and> drop (length s - length p) s = p)"

definition toLowerByte :: "char \<Rightarrow> char" where
  "toLowerByte c =
     (let n = (of_char c :: nat) in if 65 \<le> n \<and> n \<le> 90 then char_of (n + 32) else c)"

text \<open>\<open>strings.ToLower\<close> on ASCII (a scheme consists of ASCII letters, digits and \<open>+-.\<close>).\<close>

definition ToLower :: "string \<Rightarrow> string" where
  "ToLower s = map toLowerByte s"

datatype encoding =
    encodePath
  | encodePathSegment
  | encodeHost
  | encodeZone
  | encodeUserPassword
  | encodeQueryComponent
  | encodeFragment

text \<open>The test \<open>lo <= c && c <= hi\<close> on bytes.\<close>

definition byte_in :: "char \<Rightarrow> char \<Rightarrow> char \<Rightarrow> bool" where
  "byte_in lo hi c \<longleftrightarrow> lo \<le> c \<and> c \<le> hi"

definition isAlnum :: "char \<Rightarrow> bool" where
  "isAlnum c \<longleftrightarrow>
     byte_in (CHR ''a'') (CHR ''z'') c \<or> byte_in (CHR ''A'') (CHR ''Z'') c \<or>
     byte_in (CHR ''0'') (CHR ''9'') c"

definition ishex :: "char \<Rightarrow> bool" where
  "ishex c \<longleftrightarrow>
     byte_in (CHR ''0'') (CHR ''9'') c \<or> byte_in (CHR ''a'') (CHR ''f'') c \<or>
     byte_in (CHR ''A'') (CHR ''F'') c"

definition unhex :: "char \<Rightarrow> nat" where
  "unhex c =
     (if byte_in (CHR ''0'') (CHR ''9'') c then of_char c - 48
      else if byte_in (CHR ''a'') (CHR ''f'') c then of_char c - 97 + 10
      else if byte_in (CHR ''A'') (CHR ''F'') c then of_char c - 65 + 10
      else 0)"

definition shouldEscape :: "char \<Rightarrow> encoding \<Rightarrow> bool" where
  "shouldEscape c mode =
     (if isAlnum c then False
      else if (mode = encodeHost \<or> mode = encodeZone) \<and> c \<in> set ''!$&'()*+,;=:[]<>\"''
        then False
      else if c \<in> set ''-_.~'' then False
      else if c \<in> set ''$&+,/:;=?@'' \<and> mode = encodePath then c = CHR ''?''
      else if c \<in> set ''$&+,/:;=?@'' \<and> mode = encodePathSegment
        then c = CHR ''/'' \<or> c = CHR '';'' \<or> c = CHR '','' \<or> c = CHR ''?''
      else if c \<in> set ''$&+,/:;=?@'' \<and> mode = encodeUserPassword
        then c = CHR ''@'' \<or> c = CHR ''/'' \<or> c = CHR ''?'' \<or> c = CHR '':''
      else if c \<in> set ''$&+,/:;=?@'' \<and> mode = encodeQueryComponent then True
      else if c \<in> set ''$&+,/:;=?@'' \<and> mode = encodeFragment then False
      else if mode = encodeFragment \<and> c \<in> set ''!()*'' then False
      else True)"

text \<open>
  \<open>unescape\<close> checks the string first (the first loop of the Go function) and decodes
  it afterwards (the second loop).
\<close>

fun unescape_check :: "encoding \<Rightarrow> string \<Rightarrow> error option" where
  "unescape_check mode [] = None"
| "unescape_check mode (c # s) =
     (if c = CHR ''%'' then
        (case s of
           h1 # h2 # s' \<Rightarrow>
             if \<not> ishex h1 \<or> \<not> ishex h2 then Some (EscapeError [c, h1, h2])
             else if mode = encodeHost \<and> unhex h1 < 8 \<and> [c, h1, h2] \<noteq> ''%25''
               then Some (EscapeError [c, h1, h2])
             else if mode = encodeZone \<and> [c, h1, h2] \<noteq> ''%25'' \<and>
                     char_of (16 * unhex h1 + unhex h2) \<noteq> CHR '' '' \<and>
                     shouldEscape (char_of (16 * unhex h1 + unhex h2)) encodeHost
               then Some (EscapeError [c, h1, h2])
             else unescape_check mode s'
         | _ \<Rightarrow> Some (EscapeError (c # s)))
      else if c = CHR ''+'' then unescape_check mode s
      else if (mode = encodeHost \<or> mode = encodeZone) \<and> c < CHR 0x80 \<and>
              shouldEscape c encodeHost
        then Some (InvalidHostError [c])
      else unescape_check mode s)"

fun unescape_decode :: "encoding \<Rightarrow> string \<Rightarrow> string" where
  "unescape_decode mode [] = []"
| "unescape_decode mode (c # s) =
     (if c = CHR ''%'' then
        (case s of
           h1 # h2 # s' \<Rightarrow> char_of (16 * unhex h1 + unhex h2) # unescape_decode mode s'
         | _ \<Rightarrow> c # s)
      else if c = CHR ''+'' then
        (if mode = encodeQueryComponent then CHR '' '' else CHR ''+'') # unescape_decode mode s
      else c # unescape_decode mode s)"

definition unescape :: "string \<Rightarrow> encoding \<Rightarrow> error + string" where
  "unescape s mode =
     (case unescape_check mode s of
        Some err \<Rightarrow> Inl err
      | None \<Rightarrow> Inr (unescape_decode mode s))"

definition QueryUnescape :: "string \<Rightarrow> error + string" where
  "QueryUnescape s = unescape s encodeQueryComponent"

definition upperhex :: string where
  "upperhex = ''0123456789ABCDEF''"

definition escape_byte :: "encoding \<Rightarrow> char \<Rightarrow> string" where
  "escape_byte mode c =
     (if shouldEscape c mode then
        (if c = CHR '' '' \<and> mode = encodeQueryComponent then ''+''
         else [CHR ''%'', upperhex ! (of_char c div 16), upperhex ! (of_char c mod 16)])
      else [c])"

definition escape :: "string \<Rightarrow> encoding \<Rightarrow> string" where
  "escape s mode = concat (map (escape_byte mode) s)"

text \<open>\<open>split\<close> of net/url: cut \<open>s\<close> at the first occurrence of \<open>sep\<close>.\<close>

definition url_split :: "string \<Rightarrow> string \<Rightarrow> bool \<Rightarrow> string \<times> string" where
  "url_split s sep cutc =
     (case Index s sep of
        None \<Rightarrow> (s, [])
      | Some i \<Rightarrow> if cutc then (take i s, drop (i + length sep) s) else (take i s, drop i s))"

definition stringContainsCTLByte :: "string \<Rightarrow> bool" where
  "stringContainsCTLByte s = list_ex (\<lambda>b. b < CHR '' '' \<or> b = CHR 0x7F) s"

fun getscheme_loop :: "string \<Rightarrow> nat \<Rightarrow> string \<Rightarrow> error + string \<times> string" where
  "getscheme_loop rawurl i [] = Inr ([], rawurl)"
| "getscheme_loop rawurl i (c # cs) =
     (if byte_in (CHR ''a'') (CHR ''z'') c \<or> byte_in (CHR ''A'') (CHR ''Z'') c
        then getscheme_loop rawurl (Suc i) cs
      else if byte_in (CHR ''0'') (CHR ''9'') c \<or> c = CHR ''+'' \<or> c = CHR ''-'' \<or> c = CHR ''.''
        then (if i = 0 then Inr ([], rawurl) else getscheme_loop rawurl (Suc i) cs)
      else if c = CHR '':''
        then (if i = 0 then Inl (ErrorString ''missing protocol scheme'')
              else Inr (take i rawurl, drop (Suc i) rawurl))
      else Inr ([], rawurl))"

definition getscheme :: "string \<Rightarrow> error + string \<times> string" where
  "getscheme rawurl = getscheme_loop rawurl 0 rawurl"

definition validOptionalPort :: "string \<Rightarrow> bool" where
  "validOptionalPort port =
     (case port of
        [] \<Rightarrow> True
      | c # ds \<Rightarrow> c = CHR '':'' \<and> list_all (\<lambda>b. \<not> (b < CHR ''0'' \<or> b > CHR ''9'')) ds)"

definition validUserinfo :: "string \<Rightarrow> bool" where
  "validUserinfo s = list_all (\<lambda>r. isAlnum r \<or> r \<in> set ''-._:~!$&'()*+,;=%@'') s"

definition parseHost :: "string \<Rightarrow> error + string" where
  "parseHost host =
     (if HasPrefix host ''['' then
        (case LastIndex host '']'' of
           None \<Rightarrow> Inl (ErrorString ''missing ']' in host'')
         | Some i \<Rightarrow>
             let colonPort = drop (i + 1) host in
             if \<not> validOptionalPort colonPort then Inl (InvalidPort colonPort)
             else
               (case Index (take i host) ''%25'' of
                  Some zone \<Rightarrow>
                    (case unescape (take zone host) encodeHost of
                       Inl err \<Rightarrow> Inl err
                     | Inr host1 \<Rightarrow>
                         (case unescape (drop zone (take i host)) encodeZone of
                            Inl err \<Rightarrow> Inl err
                          | Inr host2 \<Rightarrow>
                              (case unescape (drop i host) encodeHost of
                                 Inl err \<Rightarrow> Inl err
                               | Inr host3 \<Rightarrow> Inr (host1 @ host2 @ host3))))
                | None \<Rightarrow> unescape host encodeHost))
      else
        (case LastIndex host '':'' of
           Some i \<Rightarrow>
             let colonPort = drop i host in
             if \<not> validOptionalPort colonPort then Inl (InvalidPort colonPort)
             else unescape host encodeHost
         | None \<Rightarrow> unescape host encodeHost))"

definition parseAuthority :: "string \<Rightarrow> error + Userinfo option \<times> string" where
  "parseAuthority authority =
     (let i = LastIndex authority ''@'' in
      case (case i of None \<Rightarrow> parseHost authority
                    | Some i \<Rightarrow> parseHost (drop (i + 1) authority)) of
        Inl err \<Rightarrow> Inl err
      | Inr host \<Rightarrow>
          (case i of
             None \<Rightarrow> Inr (None, host)
           | Some i \<Rightarrow>
               let userinfo = take i authority in
               if \<not> validUserinfo userinfo then Inl (ErrorString ''net/url: invalid userinfo'')
               else if Index userinfo '':'' = None then
                 (case unescape userinfo encodeUserPassword of
                    Inl err \<Rightarrow> Inl err
                  | Inr userinfo \<Rightarrow>
                      Inr (Some \<lparr>username = userinfo, password = [], passwordSet = False\<rparr>, host))
               else
                 (case url_split userinfo '':'' True of
                    (uname, pword) \<Rightarrow>
                      (case unescape uname encodeUserPassword of
                         Inl err \<Rightarrow> Inl err
                       | Inr uname \<Rightarrow>
                           (case unescape pword encodeUserPassword of
                              Inl err \<Rightarrow> Inl err
                            | Inr pword \<Rightarrow>
                                Inr (Some \<lparr>username = uname, password = pword,
                                           passwordSet = True\<rparr>, host))))))"

definition setPath :: "URL \<Rightarrow> string \<Rightarrow> error + URL" where
  "setPath u p =
     (case unescape p encodePath of
        Inl err \<Rightarrow> Inl err
      | Inr path \<Rightarrow>
          Inr (u\<lparr>Path := path, RawPath := (if p = escape path encodePath then [] else p)\<rparr>))"

definition parse :: "string \<Rightarrow> bool \<Rightarrow> error + URL" where
  "parse rawurl viaRequest =
     (if stringContainsCTLByte rawurl
        then Inl (ErrorString ''net/url: invalid control character in URL'')
      else if rawurl = [] \<and> viaRequest then Inl (ErrorString ''empty url'')
      else if rawurl = ''*'' then Inr (new_URL\<lparr>Path := ''*''\<rparr>)
      else
        (case getscheme rawurl of
           Inl err \<Rightarrow> Inl err
         | Inr (scheme, rest) \<Rightarrow>
             let url = new_URL\<lparr>Scheme := ToLower scheme\<rparr>;
                 (rest, url) =
                   (if HasSuffix rest ''?'' \<and> count_list rest (CHR ''?'') = 1
                      then (butlast rest, url\<lparr>ForceQuery := True\<rparr>)
                    else (fst (url_split rest ''?'' True),
                          url\<lparr>RawQuery := snd (url_split rest ''?'' True)\<rparr>))
             in
               if \<not> HasPrefix rest ''/'' \<and> Scheme url \<noteq> [] then Inr (url\<lparr>Opaque := rest\<rparr>)
               else if \<not> HasPrefix rest ''/'' \<and> viaRequest
                 then Inl (ErrorString ''invalid URI for request'')
               else if \<not> HasPrefix rest ''/'' \<and>
                       (case Index rest '':'' of
                          None \<Rightarrow> False
                        | Some colon \<Rightarrow>
                            (case Index rest ''/'' of None \<Rightarrow> True | Some slash \<Rightarrow> colon < slash))
                 then Inl (ErrorString ''first path segment in URL cannot contain colon'')
               else if (Scheme url \<noteq> [] \<or> \<not> viaRequest \<and> \<not> HasPrefix rest ''///'') \<and>
                       HasPrefix rest ''//''
                 then
                   (case url_split (drop 2 rest) ''/'' False of
                      (authority, rest) \<Rightarrow>
                        (case parseAuthority authority of
                           Inl err \<Rightarrow> Inl err
                         | Inr (user, host) \<Rightarrow> setPath (url\<lparr>User := user, Host := host\<rparr>) rest))
               else setPath url rest))"

definition Parse :: "string \<Rightarrow> error + URL" where
  "Parse rawurl =
     (case url_split rawurl ''#'' True of
        (u, frag) \<Rightarrow>
          (case parse u False of
             Inl err \<Rightarrow> Inl (UrlError ''parse'' u err)
           | Inr url \<Rightarrow>
               if frag = [] then Inr url
               else
                 (case unescape frag encodeFragment of
                    Inl err \<Rightarrow> Inl (UrlError ''parse'' rawurl err)
                  | Inr fragment \<Rightarrow> Inr (url\<lparr>Fragment := fragment\<rparr>))))"

definition validEncodedPath :: "string \<Rightarrow> bool" where
  "validEncodedPath s =
     list_all (\<lambda>c. c \<in> set ''!$&'()*+,;=:@'' \<or> c \<in> set ''[]'' \<or> c = CHR ''%'' \<or>
                    \<not> shouldEscape c encodePath) s"

definition EscapedPath :: "URL \<Rightarrow> string" where
  "EscapedPath u =
     (if RawPath u \<noteq> [] \<and> validEncodedPath (RawPath u) \<and>
         unescape (RawPath u) encodePath = Inr (Path u)
        then RawPath u
      else if Path u = ''*'' then ''*''
      else escape (Path u) encodePath)"

text \<open>
  \<open>Values\<close> is a map from keys to the lists of their values, the empty list for a key
  that is absent; \<open>Get\<close> returns the first value of a key, or the empty string.
\<close>

type_synonym Values = "string \<Rightarrow> string list"

definition Get :: "Values \<Rightarrow> string \<Rightarrow> string" where
  "Get v key = (case v key of [] \<Rightarrow> [] | x # _ \<Rightarrow> x)"

text \<open>
  \<open>parseQuery\<close>: the loop takes the piece up to the next \<open>&\<close> or \<open>;\<close> off the query
  until the query is empty; a piece that fails to unescape is skipped. (\<open>Query()\<close> drops
  the error, which is left out here.)
\<close>

function parseQuery :: "Values \<Rightarrow> string \<Rightarrow> Values" where
  "parseQuery m query =
     (if query = [] then m
      else
        let (key, query) =
              (case IndexAny query ''&;'' of
                 Some i \<Rightarrow> (take i query, drop (i + 1) query)
               | None \<Rightarrow> (query, []))
        in
          if key = [] then parseQuery m query
          else
            let (key, value) =
                  (case Index key ''='' of
                     Some i \<Rightarrow> (take i key, drop (i + 1) key)
                   | None \<Rightarrow> (key, []))
            in
              (case QueryUnescape key of
                 Inl err1 \<Rightarrow> parseQuery m query
               | Inr key \<Rightarrow>
                   (case QueryUnescape value of
                      Inl err1 \<Rightarrow> parseQuery m query
                    | Inr value \<Rightarrow> parseQuery (m(key := m key @ [value])) query)))"
  by pat_completeness auto
termination
  by (relation "measure (\<lambda>(m, query). length query)") (auto split: option.splits)

definition Query :: "URL \<Rightarrow> Values" where
  "Query u = parseQuery (\<lambda>key. []) (RawQuery u)"

subsection \<open>Storage engines\<close>

text \<open>
  Modelled from the spec: the packages \<open>storage\<close>, \<open>storage/file\<close> and \<open>storage/consul\<close> of
  the repository are not among the sources. A storage engine is a tagged variant
  selected by the scheme of the connection string: the local file backend, made by
  \<open>fileStorage.System()\<close>, or the consul backend, made by \<open>consul.New(address, folder,
  token)\<close>, which keeps the three arguments it was made from. Whether a constructor
  returns an error is not determined by the command: it is a parameter.
\<close>

datatype engine =
    FileStorage
  | ConsulStorage string string string

record backends =
  System_err :: "error option"
  New_err :: "string \<Rightarrow> string \<Rightarrow> string \<Rightarrow> error option"

text \<open>The nil value of the interface \<open>storage.Engine\<close> is \<open>None\<close>.\<close>

definition System :: "backends \<Rightarrow> engine option \<times> error option" where
  "System bk =
     (case System_err bk of None \<Rightarrow> (Some FileStorage, None) | Some err \<Rightarrow> (None, Some err))"

definition New :: "backends \<Rightarrow> string \<Rightarrow> string \<Rightarrow> string \<Rightarrow> engine option \<times> error option" where
  "New bk address folder token =
     (case New_err bk address folder token of
        None \<Rightarrow> (Some (ConsulStorage address folder token), None)
      | Some err \<Rightarrow> (None, Some err))"

subsection \<open>clusterConfiguration\<close>

text \<open>The slice expression \<open>s[i:]\<close> of Go panics when \<open>i\<close> is beyond the length of \<open>s\<close>.\<close>

definition slice_from :: "string \<Rightarrow> nat \<Rightarrow> panic + string" where
  "slice_from s i = (if length s < i then Inl SliceBoundsOutOfRange else Inr (drop i s))"

text \<open>
  The switch over the scheme has the one case \<open>"consul"\<close> and no default: for any other
  scheme the function returns the named result \<open>engine\<close> as it was declared, nil.
\<close>

definition clusterConfiguration :: "backends \<Rightarrow> string \<Rightarrow> panic + engine option" where
  "clusterConfiguration bk cluster =
     (if cluster = [] then
        (case System bk of
           (engine, Some err) \<Rightarrow> Inl (PanicIfError err)
         | (engine, None) \<Rightarrow> Inr engine)
      else
        (case Parse cluster of
           Inl err \<Rightarrow> Inl (PanicIfError err)
         | Inr config \<Rightarrow>
             if Scheme config = ''consul'' then
               let token = Get (Query config) ''token'' in
               (case slice_from (EscapedPath config) 1 of
                  Inl p \<Rightarrow> Inl p
                | Inr folder \<Rightarrow>
                    (case New bk (Host config) folder token of
                       (engine, Some err) \<Rightarrow> Inl (PanicIfError err)
                     | (engine, None) \<Rightarrow> Inr engine))
             else Inr None))"

text \<open>Backends whose constructors succeed.\<close>

definition reachable :: backends where
  "reachable = \<lparr>System_err = None, New_err = (\<lambda>address folder token. None)\<rparr>"

text \<open>A path that is empty or begins with a slash.\<close>

definition rooted :: "string \<Rightarrow> bool" where
  "rooted s \<longleftrightarrow> s = [] \<or> hd s = CHR ''/''"

subsection \<open>getString\<close>

definition getString ::
  "(string \<Rightarrow> string) \<Rightarrow> environ \<Rightarrow> flags \<Rightarrow> string \<Rightarrow> panic + string" where
  "getString mapUpper env fl key =
     (let envKey = ToUpper mapUpper (''aginx_'' @ key);
          value = Getenv env envKey
      in if value \<noteq> [] then Inr value
         else (case GetString fl key of
                 (value, Some err) \<Rightarrow> Inl (PanicIfError err)
               | (value, None) \<Rightarrow> Inr value))"

text \<open>
  A key that is not ASCII, \<open>caf\<close> followed by the two UTF-8 bytes of the letter e with
  an acute accent, and a mapping that gives the upper case of the two strings it is
  asked for with this key (the accented letter in upper case is \<open>0xC3 0x89\<close>).
\<close>

definition accent_key :: string where
  "accent_key = ''caf'' @ [CHR 0xC3, CHR 0xA9]"

definition mapUpper_example :: "string \<Rightarrow> string" where
  "mapUpper_example s =
     (if s = ''aginx_caf'' @ [CHR 0xC3, CHR 0xA9] then ''AGINX_CAF'' @ [CHR 0xC3, CHR 0x89]
      else if s = ''caf'' @ [CHR 0xC3, CHR 0xA9] then ''CAF'' @ [CHR 0xC3, CHR 0x89]
      else s)"

subsection \<open>Directives\<close>

text \<open>
  Modelled from the spec: the type \<open>configuration.Directive\<close> and its operations
  \<open>NewDirective\<close> and \<open>AddBody\<close> are in a package of the repository that is not among the
  sources. A directive has a name, an ordered sequence of arguments and an ordered body
  of child directives; \<open>AddBody(name, args...)\<close> appends a new child with no body of its
  own under the node and returns the child.
\<close>

datatype Directive = Directive (Name: string) (Args: "string list") (Body: "Directive list")

definition NewDirective :: "string \<Rightarrow> Directive" where
  "NewDirective name = Directive name [] []"

text \<open>
  Directives are handled through pointers: the child returned by \<open>AddBody\<close> is the node
  that sits in the body of its parent. In the model the parent is passed and returned,
  and the returned child is named by its index in the body of the parent.
\<close>

definition AddBody :: "Directive \<Rightarrow> string \<Rightarrow> string list \<Rightarrow> Directive \<times> nat" where
  "AddBody d name args =
     (Directive (Name d) (Args d) (Body d @ [Directive name args []]), length (Body d))"

text \<open>\<open>AddBody\<close> called on the child with index \<open>i\<close> of \<open>d\<close>; the new grandchild is not used.\<close>

definition AddBodyIn :: "nat \<Rightarrow> Directive \<Rightarrow> string \<Rightarrow> string list \<Rightarrow> Directive" where
  "AddBodyIn i d name args =
     Directive (Name d) (Args d) ((Body d)[i := fst (AddBody (Body d ! i) name args)])"

subsection \<open>apiServer\<close>

definition apiServer :: "string \<Rightarrow> string \<Rightarrow> Directive" where
  "apiServer domain address0 =
     (let directive = NewDirective ''server'';
          directive = fst (AddBody directive ''listen'' [''80'']);
          directive = fst (AddBody directive ''server_name'' [domain]);
          address = (if HasPrefix address0 '':'' then ''127.0.0.1'' @ address0 else address0);
          (directive, location) = AddBody directive ''location'' [''/''];
          directive = AddBodyIn location directive ''proxy_redirect'' [''default''];
          directive = AddBodyIn location directive ''proxy_pass'' [''http://'' @ address];
          directive = AddBodyIn location directive ''proxy_set_header'' [''Host'', ''$host''];
          directive = AddBodyIn location directive ''proxy_set_header''
                        [''X-Real-IP'', ''$remote_addr''];
          directive = AddBodyIn location directive ''proxy_set_header''
                        [''X-Forwarded-For'', ''$proxy_add_x_forwarded_for''];
          directive = AddBodyIn location directive ''client_max_body_size'' [''10m''];
          directive = AddBodyIn location directive ''client_body_buffer_size'' [''128k''];
          directive = AddBodyIn location directive ''proxy_connect_timeout'' [''90''];
          directive = AddBodyIn location directive ''proxy_send_timeout'' [''90''];
          directive = AddBodyIn location directive ''proxy_read_timeout'' [''90''];
          directive = AddBodyIn location directive ''proxy_buffers'' [''32'', ''4k'']
      in directive)"

text \<open>
  The skeleton as the specification words it, for comparison with \<open>apiServer\<close>: a server
  block listening on port 80 for the domain, whose location \<open>/\<close> proxies to the given
  address, forwards the three headers and fixes the sizes, timeouts and buffers.
\<close>

definition skeleton_of_spec :: "string \<Rightarrow> string \<Rightarrow> Directive" where
  "skeleton_of_spec domain address =
     Directive ''server'' []
       [Directive ''listen'' [''80''] [],
        Directive ''server_name'' [domain] [],
        Directive ''location'' [''/'']
          [Directive ''proxy_pass'' [''http://'' @ address] [],
           Directive ''proxy_set_header'' [''Host'', ''$host''] [],
           Directive ''proxy_set_header'' [''X-Real-IP'', ''$remote_addr''] [],
           Directive ''proxy_set_header'' [''X-Forwarded-For'', ''$proxy_add_x_forwarded_for''] [],
           Directive ''client_max_body_size'' [''10m''] [],
           Directive ''client_body_buffer_size'' [''128k''] [],
           Directive ''proxy_connect_timeout'' [''90''] [],
           Directive ''proxy_send_timeout'' [''90''] [],
           Directive ''proxy_read_timeout'' [''90''] [],
           Directive ''proxy_buffers'' [''32'', ''4k''] []]]"

subsection \<open>selectDirective\<close>

text \<open>
  The package \<open>nginx/client\<close> of the repository is not among the sources. What
  \<open>client.Queries\<close> makes of its arguments and what \<open>api.Select\<close> returns are parameters
  of \<open>selectDirective\<close>: \<open>Queries\<close> maps the arguments to the query list, and \<open>Select\<close>
  maps a query list to the matching directives in document order, or to an error
  (\<open>NotFound\<close> of the specification when nothing matches).

  The function looks at the error only: after an error-free \<open>Select\<close> it takes
  \<open>directives[0]\<close>, which panics on an empty list.
\<close>

definition serverQuery :: "string \<Rightarrow> string" where
  "serverQuery domain =
     ''server.[server_name('' @ [CHR 0x27] @ domain @ [CHR 0x27] @ '') & listen('80')]''"

definition index0 :: "'a list \<Rightarrow> panic + 'a" where
  "index0 xs = (case xs of [] \<Rightarrow> Inl IndexOutOfRange | x # _ \<Rightarrow> Inr x)"

definition selectDirective ::
  "(string list \<Rightarrow> string list) \<Rightarrow> (string list \<Rightarrow> error + Directive list) \<Rightarrow> string \<Rightarrow>
     panic + string list \<times> Directive option" where
  "selectDirective Queries Select domain =
     (let queries = Queries [''http'', ''include'', ''*'', serverQuery domain] in
      case Select queries of
        Inr directives \<Rightarrow>
          (case index0 directives of
             Inl p \<Rightarrow> Inl p
           | Inr directive \<Rightarrow> Inr (queries, Some directive))
      | Inl err \<Rightarrow>
          let queries = Queries [''http'', serverQuery domain] in
          (case Select queries of
             Inr directives \<Rightarrow>
               (case index0 directives of
                  Inl p \<Rightarrow> Inl p
                | Inr directive \<Rightarrow> Inr (queries, Some directive))
           | Inl err \<Rightarrow> Inr (queries, None)))"

text \<open>
  Modelled from the spec: the contract of \<open>Select\<close> in the missing package
  \<open>nginx/client\<close>. \<open>Select\<close> returns the matches or \<open>NotFound\<close>: a query that yields zero
  matches is an error, so an error-free \<open>Select\<close> returns at least one match.
\<close>

definition Select_contract :: "(string list \<Rightarrow> error + Directive list) \<Rightarrow> bool" where
  "Select_contract Select = (\<forall>queries. Select queries \<noteq> Inr [])"

text \<open>
  A \<open>Select\<close> for a tree that holds the server block of \<open>aginx.example.com\<close> directly
  under \<open>http\<close> and nothing inside an include.
\<close>

definition Select_example :: "string list \<Rightarrow> error + Directive list" where
  "Select_example queries =
     (if queries = [''http'', serverQuery ''aginx.example.com'']
        then Inr [apiServer ''aginx.example.com'' '':8011'']
      else Inl NotFound)"

subsection \<open>exposeApi\<close>

text \<open>
  The operations of the missing packages that \<open>exposeApi\<close> calls are parameters, as
  \<open>Select\<close> and \<open>Queries\<close> are above. \<open>'w\<close> is the state outside the process, which holds
  what the storage backend has persisted; \<open>'c\<close> is the state of a client, which holds
  the tree; \<open>'cfg\<close> is the value \<open>api.Configuration()\<close> hands to the storage engine.
  \<open>NewClient\<close> and \<open>Select\<close> read; \<open>Add\<close> changes the client, and may persist;
  \<open>StoreConfiguration\<close> persists. Each returns an error or its result.
\<close>

record ('w, 'c, 'cfg) client_ops =
  NewClient :: "engine option \<Rightarrow> 'w \<Rightarrow> error + 'c"
  Select :: "'c \<Rightarrow> string list \<Rightarrow> error + Directive list"
  Add :: "'c \<Rightarrow> string list \<Rightarrow> Directive \<Rightarrow> 'w \<Rightarrow> error + 'c \<times> 'w"
  Configuration :: "'c \<Rightarrow> 'cfg"
  StoreConfiguration :: "engine option \<Rightarrow> 'cfg \<Rightarrow> 'w \<Rightarrow> error + 'w"
  Queries :: "string list \<Rightarrow> string list"

text \<open>The calls that change the configuration, in the order in which they are made.\<close>

datatype 'cfg call =
    AddCall "string list" Directive
  | StoreCall 'cfg

definition exposeApi ::
  "(string \<Rightarrow> string) \<Rightarrow> environ \<Rightarrow> flags \<Rightarrow> ('w, 'c, 'cfg) client_ops \<Rightarrow>
     engine option \<Rightarrow> 'w \<Rightarrow> panic + 'w \<times> 'cfg call list" where
  "exposeApi mapUpper env fl ops engine w =
     (case getString mapUpper env fl ''api'' of
        Inl p \<Rightarrow> Inl p
      | Inr address \<Rightarrow>
     (case getString mapUpper env fl ''expose'' of
        Inl p \<Rightarrow> Inl p
      | Inr domain \<Rightarrow>
          if domain = [] then Inr (w, [])
          else
            (case NewClient ops engine w of
               Inl err \<Rightarrow> Inl (PanicIfError err)
             | Inr api \<Rightarrow>
            (case selectDirective (Queries ops) (Select ops api) domain of
               Inl p \<Rightarrow> Inl p
             | Inr (queries, directive) \<Rightarrow>
                 if directive = None then
                   (case Add ops api (Queries ops [''http'']) (apiServer domain address) w of
                      Inl err \<Rightarrow> Inl (PanicIfError err)
                    | Inr (api, w) \<Rightarrow>
                   (case StoreConfiguration ops engine (Configuration ops api) w of
                      Inl err \<Rightarrow> Inl (PanicIfError err)
                    | Inr w \<Rightarrow>
                        Inr (w, [AddCall (Queries ops [''http'']) (apiServer domain address),
                                 StoreCall (Configuration ops api)])))
                 else Inr (w, [])))))"

text \<open>
  Modelled from the spec: what the missing client and storage engine guarantee for the
  block of one domain and address. \<open>Add\<close> appends the new subtree under the resolved
  node, \<open>StoreConfiguration\<close> persists the tree, \<open>LoadConfiguration\<close> gives it back, and
  selection finds a server block by its \<open>server_name\<close> and \<open>listen\<close>: once the block of
  \<open>apiServer\<close> has been added under \<open>http\<close> and the configuration stored, a client made
  from what is stored selects a match with the query for the block directly under
  \<open>http\<close>.
\<close>

definition Add_then_found ::
  "('w, 'c, 'cfg) client_ops \<Rightarrow> engine option \<Rightarrow> string \<Rightarrow> string \<Rightarrow> bool" where
  "Add_then_found ops engine domain address =
     (\<forall>w api api' w' w''.
        NewClient ops engine w = Inr api \<and>
        Add ops api (Queries ops [''http'']) (apiServer domain address) w = Inr (api', w') \<and>
        StoreConfiguration ops engine (Configuration ops api') w' = Inr w''
        \<longrightarrow> (\<exists>api2 d ds. NewClient ops engine w'' = Inr api2 \<and>
               Select ops api2 (Queries ops [''http'', serverQuery domain]) = Inr (d # ds)))"

text \<open>
  An instance of the parameters, small enough to run: the state outside, the client
  and the configuration are the list of the blocks directly under \<open>http\<close>; \<open>Add\<close> under
  \<open>http\<close> appends a block; \<open>Select\<close> answers the query for a server block directly under
  \<open>http\<close> by comparing the query of the \<open>server_name\<close> of each block that listens on
  port 80 with the query asked, and finds nothing inside an include.
\<close>

definition server_name_of :: "Directive \<Rightarrow> string" where
  "server_name_of d =
     (case filter (\<lambda>c. Name c = ''server_name'') (Body d) of
        [] \<Rightarrow> []
      | c # _ \<Rightarrow> (case Args c of [] \<Rightarrow> [] | a # _ \<Rightarrow> a))"

definition listens_80 :: "Directive \<Rightarrow> bool" where
  "listens_80 d = list_ex (\<lambda>c. Name c = ''listen'' \<and> Args c = [''80'']) (Body d)"

definition example_ops :: "(Directive list, Directive list, Directive list) client_ops" where
  "example_ops =
     \<lparr>NewClient = (\<lambda>engine w. Inr w),
      Select = (\<lambda>api queries.
        case filter (\<lambda>d. Name d = ''server'' \<and> listens_80 d \<and>
                         queries = [''http'', serverQuery (server_name_of d)]) api of
          [] \<Rightarrow> Inl NotFound
        | d # ds \<Rightarrow> Inr (d # ds)),
      Add = (\<lambda>api queries d w. if queries = [''http''] then Inr (api @ [d], w) else Inl NotFound),
      Configuration = (\<lambda>api. api),
      StoreConfiguration = (\<lambda>engine cfg w. Inr cfg),
      Queries = (\<lambda>qs. qs)\<rparr>"

text \<open>Flags that select the local file backend and expose the API under a domain.\<close>

definition example_flags :: flags where
  "example_flags =
     [''api'' \<mapsto> '':8011'', ''security'' \<mapsto> [], ''cluster'' \<mapsto> [],
      ''expose'' \<mapsto> ''aginx.example.com'']"

subsection \<open>The server command\<close>

text \<open>
  Modelled from the spec: the interface \<open>Service\<close> and the daemon of the missing package
  \<open>util\<close>, and the method sets of the storage backends. A backend implements the
  capability \<open>Service\<close> (\<open>Start\<close>, \<open>Stop\<close>) when it needs a live connection or a watch
  loop, as the clustered key-value backends do; the purely local file backend does not.
  The daemon owns the services registered with \<open>Add\<close>, in the order of registration.
\<close>

definition implementsService :: "engine \<Rightarrow> bool" where
  "implementsService e = (case e of FileStorage \<Rightarrow> False | ConsulStorage a f t \<Rightarrow> True)"

datatype service =
    StorageService engine
  | HttpService string
  | SupervisterService
  | ManagerService

type_synonym daemon = "service list"

definition NewDaemon :: daemon where
  "NewDaemon = []"

definition daemon_Add :: "daemon \<Rightarrow> service list \<Rightarrow> daemon" where
  "daemon_Add d services = d @ services"

text \<open>
  The type assertion \<open>engine.(Service)\<close> in its two-result form: it matches when the
  engine is not nil and its type implements \<open>Service\<close>, and it does not panic otherwise.
\<close>

definition asService :: "engine option \<Rightarrow> service option" where
  "asService engine =
     (case engine of
        None \<Rightarrow> None
      | Some e \<Rightarrow> if implementsService e then Some (StorageService e) else None)"

text \<open>
  \<open>RunE\<close> of \<open>ServerCmd\<close>, up to the call of \<open>Start\<close>: the result is the daemon that is
  started, with the state outside the process. A panic is caught by the deferred
  \<open>Catch\<close>, which prints it; no service is started then. Whether \<open>lego.NewManager\<close>
  returns an error is a parameter.
\<close>

definition ServerCmd ::
  "(string \<Rightarrow> string) \<Rightarrow> environ \<Rightarrow> flags \<Rightarrow> backends \<Rightarrow> ('w, 'c, 'cfg) client_ops \<Rightarrow>
     (engine option \<Rightarrow> error option) \<Rightarrow> 'w \<Rightarrow> panic + daemon \<times> 'w" where
  "ServerCmd mapUpper env fl bk ops NewManager_err w =
     (case getString mapUpper env fl ''api'' of
        Inl p \<Rightarrow> Inl p
      | Inr address \<Rightarrow>
     (case getString mapUpper env fl ''security'' of
        Inl p \<Rightarrow> Inl p
      | Inr auth \<Rightarrow>
     (case getString mapUpper env fl ''cluster'' of
        Inl p \<Rightarrow> Inl p
      | Inr cluster \<Rightarrow>
     (case clusterConfiguration bk cluster of
        Inl p \<Rightarrow> Inl p
      | Inr engine \<Rightarrow>
          let daemon = (case asService engine of
                          Some service \<Rightarrow> daemon_Add NewDaemon [service]
                        | None \<Rightarrow> NewDaemon)
          in
     (case exposeApi mapUpper env fl ops engine w of
        Inl p \<Rightarrow> Inl p
      | Inr (w, calls) \<Rightarrow>
     (case NewManager_err engine of
        Some err \<Rightarrow> Inl (PanicIfError err)
      | None \<Rightarrow>
          Inr (daemon_Add daemon [HttpService address, SupervisterService, ManagerService],
               w)))))))"

text \<open>Flags that select the consul backend and expose nothing.\<close>

definition consul_flags :: flags where
  "consul_flags =
     [''api'' \<mapsto> '':8011'', ''security'' \<mapsto> [],
      ''cluster'' \<mapsto> ''consul://127.0.0.1:8500/aginx?token=authtoken'',
      ''expose'' \<mapsto> []]"

section \<open>Properties\<close>

subsection \<open>getString\<close>

lemma isASCII_aginx: "isASCII (''aginx_'' @ key) = isASCII key"
  by (simp add: isASCII_def)

lemma ToUpper_aginx:
  assumes "isASCII key \<or> up (''aginx_'' @ key) = ''AGINX_'' @ up key"
  shows "ToUpper up (''aginx_'' @ key) = ''AGINX_'' @ ToUpper up key"
proof (cases "isASCII key")
  case True
  then show ?thesis
    unfolding ToUpper_def isASCII_aginx
    by (simp add: toUpperByte_def char_of_def bit_iff_odd)
next
  case False
  with assms show ?thesis
    unfolding ToUpper_def isASCII_aginx by simp
qed

lemma getString_value:
  "getString up env fl key =
     (if Getenv env (ToUpper up (''aginx_'' @ key)) \<noteq> []
        then Inr (Getenv env (ToUpper up (''aginx_'' @ key)))
      else (case fl key of
              Some v \<Rightarrow> Inr v
            | None \<Rightarrow> Inl (PanicIfError (ErrorString (''flag accessed but not defined: '' @ key)))))"
  unfolding getString_def
  by (simp add: GetString_def Let_def split: option.splits)

text \<open>
  C9. For every configuration key, \<open>getString\<close> returns the value of the environment
  variable named by the upper case of \<open>aginx_<key>\<close> whenever that variable is set to a
  non-empty string, and only otherwise the result of looking up the command-line flag:
  the environment overrides the flag. (The lookup of a name that is not a registered
  string flag panics through \<open>PanicIfError\<close>.) The name of the variable is \<open>AGINX_\<close>
  followed by the key in upper case: for an ASCII key by the byte map, and for any
  other key because the mapping of Go works rune by rune, so that it maps \<open>aginx_\<close>
  followed by the key to \<open>AGINX_\<close> followed by what it maps the key to.
\<close>

theorem getString_env_overrides_flag:
  "getString up env fl key =
     (if Getenv env (ToUpper up (''aginx_'' @ key)) \<noteq> []
        then Inr (Getenv env (ToUpper up (''aginx_'' @ key)))
      else (case fl key of
              Some v \<Rightarrow> Inr v
            | None \<Rightarrow> Inl (PanicIfError (ErrorString (''flag accessed but not defined: '' @ key))))) \<and>
   (isASCII key \<or> up (''aginx_'' @ key) = ''AGINX_'' @ up key \<longrightarrow>
      ToUpper up (''aginx_'' @ key) = ''AGINX_'' @ ToUpper up key)"
  using getString_value[of up env fl key] ToUpper_aginx[of key up]
  by blast

theorem getString_env_overrides_flag_witness:
  "getString (\<lambda>s. s) [''AGINX_API'' \<mapsto> '':9000''] [''api'' \<mapsto> '':8011''] ''api'' = Inr '':9000'' \<and>
   getString (\<lambda>s. s) [''AGINX_API'' \<mapsto> []] [''api'' \<mapsto> '':8011''] ''api'' = Inr '':8011'' \<and>
   getString (\<lambda>s. s) Map.empty [''api'' \<mapsto> '':8011''] ''api'' = Inr '':8011'' \<and>
   ToUpper mapUpper_example (''aginx_'' @ accent_key) = ''AGINX_CAF'' @ [CHR 0xC3, CHR 0x89] \<and>
   getString mapUpper_example [''AGINX_CAF'' @ [CHR 0xC3, CHR 0x89] \<mapsto> ''fromenv'']
       [accent_key \<mapsto> ''fromflag''] accent_key = Inr ''fromenv''"
proof -
  have a: "isASCII ''api''"
    by (simp add: isASCII_def)
  have u: "ToUpper (\<lambda>s. s) ''api'' = ''API''"
    by (simp add: ToUpper_def isASCII_def toUpperByte_def char_of_def bit_iff_odd)
  have n: "\<not> isASCII accent_key"
    by (simp add: isASCII_def accent_key_def)
  have m: "mapUpper_example (''aginx_'' @ accent_key) = ''AGINX_'' @ mapUpper_example accent_key"
    by (simp add: mapUpper_example_def accent_key_def)
  have k: "ToUpper mapUpper_example accent_key = ''CAF'' @ [CHR 0xC3, CHR 0x89]"
    using n by (simp add: ToUpper_def mapUpper_example_def accent_key_def)
  have 1: "getString (\<lambda>s. s) [''AGINX_API'' \<mapsto> '':9000''] [''api'' \<mapsto> '':8011''] ''api'' = Inr '':9000''"
    using getString_env_overrides_flag[of "\<lambda>s. s" "[''AGINX_API'' \<mapsto> '':9000'']"
        "[''api'' \<mapsto> '':8011'']" "''api''"] a u
    by (simp add: Getenv_def)
  have 2: "getString (\<lambda>s. s) [''AGINX_API'' \<mapsto> []] [''api'' \<mapsto> '':8011''] ''api'' = Inr '':8011''"
    using getString_env_overrides_flag[of "\<lambda>s. s" "[''AGINX_API'' \<mapsto> []]"
        "[''api'' \<mapsto> '':8011'']" "''api''"] a u
    by (simp add: Getenv_def)
  have 3: "getString (\<lambda>s. s) Map.empty [''api'' \<mapsto> '':8011''] ''api'' = Inr '':8011''"
    using getString_env_overrides_flag[of "\<lambda>s. s" Map.empty "[''api'' \<mapsto> '':8011'']" "''api''"]
    by (simp add: Getenv_def)
  have 4: "ToUpper mapUpper_example (''aginx_'' @ accent_key) = ''AGINX_CAF'' @ [CHR 0xC3, CHR 0x89]"
    using getString_env_overrides_flag[of mapUpper_example Map.empty Map.empty accent_key] m k
    by simp
  have 5: "getString mapUpper_example [''AGINX_CAF'' @ [CHR 0xC3, CHR 0x89] \<mapsto> ''fromenv'']
       [accent_key \<mapsto> ''fromflag''] accent_key = Inr ''fromenv''"
    using getString_env_overrides_flag[of mapUpper_example
        "[''AGINX_CAF'' @ [CHR 0xC3, CHR 0x89] \<mapsto> ''fromenv'']"
        "[accent_key \<mapsto> ''fromflag'']" accent_key] 4
    by (simp add: Getenv_def)
  from 1 2 3 4 5 show ?thesis by blast
qed

subsection \<open>apiServer\<close>

lemma AddBody_Directive:
  "AddBody (Directive n a b) name args = (Directive n a (b @ [Directive name args []]), length b)"
  by (simp add: AddBody_def)

lemma AddBodyIn_Directive:
  "AddBodyIn i (Directive n a b) name args =
     Directive n a (b[i := fst (AddBody (b ! i) name args)])"
  by (simp add: AddBodyIn_def)

lemma apiServer_value:
  "apiServer domain address =
     Directive ''server'' []
       [Directive ''listen'' [''80''] [],
        Directive ''server_name'' [domain] [],
        Directive ''location'' [''/'']
          [Directive ''proxy_redirect'' [''default''] [],
           Directive ''proxy_pass''
             [''http://'' @ (if HasPrefix address '':'' then ''127.0.0.1'' @ address else address)] [],
           Directive ''proxy_set_header'' [''Host'', ''$host''] [],
           Directive ''proxy_set_header'' [''X-Real-IP'', ''$remote_addr''] [],
           Directive ''proxy_set_header'' [''X-Forwarded-For'', ''$proxy_add_x_forwarded_for''] [],
           Directive ''client_max_body_size'' [''10m''] [],
           Directive ''client_body_buffer_size'' [''128k''] [],
           Directive ''proxy_connect_timeout'' [''90''] [],
           Directive ''proxy_send_timeout'' [''90''] [],
           Directive ''proxy_read_timeout'' [''90''] [],
           Directive ''proxy_buffers'' [''32'', ''4k''] []]]"
  by (simp add: apiServer_def NewDirective_def AddBody_Directive AddBodyIn_Directive Let_def)

text \<open>
  C2, as amended. For every domain and backend address, the directive returned by
  \<open>apiServer\<close> is exactly this skeleton: a server block with \<open>listen 80\<close> and
  \<open>server_name <domain>\<close> and a \<open>location /\<close> whose body is, in this order,
  \<open>proxy_redirect default\<close>, \<open>proxy_pass http://<address>\<close> where \<open>127.0.0.1\<close> is put
  before an address that begins with a colon, the headers \<open>Host $host\<close>,
  \<open>X-Real-IP $remote_addr\<close> and \<open>X-Forwarded-For $proxy_add_x_forwarded_for\<close>,
  \<open>client_max_body_size 10m\<close>, \<open>client_body_buffer_size 128k\<close>,
  \<open>proxy_connect_timeout\<close>, \<open>proxy_send_timeout\<close> and \<open>proxy_read_timeout\<close> of \<open>90\<close>, and
  \<open>proxy_buffers 32 4k\<close>.
\<close>

theorem apiServer_skeleton:
  "apiServer domain address =
     Directive ''server'' []
       [Directive ''listen'' [''80''] [],
        Directive ''server_name'' [domain] [],
        Directive ''location'' [''/'']
          [Directive ''proxy_redirect'' [''default''] [],
           Directive ''proxy_pass''
             [''http://'' @ (if HasPrefix address '':'' then ''127.0.0.1'' @ address else address)] [],
           Directive ''proxy_set_header'' [''Host'', ''$host''] [],
           Directive ''proxy_set_header'' [''X-Real-IP'', ''$remote_addr''] [],
           Directive ''proxy_set_header'' [''X-Forwarded-For'', ''$proxy_add_x_forwarded_for''] [],
           Directive ''client_max_body_size'' [''10m''] [],
           Directive ''client_body_buffer_size'' [''128k''] [],
           Directive ''proxy_connect_timeout'' [''90''] [],
           Directive ''proxy_send_timeout'' [''90''] [],
           Directive ''proxy_read_timeout'' [''90''] [],
           Directive ''proxy_buffers'' [''32'', ''4k''] []]]"
  by (rule apiServer_value)

text \<open>
  C2, as stated, fails at the address \<open>:8011\<close>, the default of the flag \<open>api\<close>: the
  location of the returned block carries \<open>proxy_redirect default\<close>, which the stated
  skeleton does not have, and it proxies to \<open>http://127.0.0.1:8011\<close>, not to
  \<open>http://:8011\<close>.
\<close>

theorem apiServer_skeleton_counterexample:
  "apiServer ''aginx.example.com'' '':8011'' \<noteq> skeleton_of_spec ''aginx.example.com'' '':8011'' \<and>
   Directive ''proxy_redirect'' [''default''] []
     \<in> set (Body (Body (apiServer ''aginx.example.com'' '':8011'') ! 2)) \<and>
   Directive ''proxy_pass'' [''http://127.0.0.1:8011''] []
     \<in> set (Body (Body (apiServer ''aginx.example.com'' '':8011'') ! 2)) \<and>
   Directive ''proxy_pass'' [''http://:8011''] []
     \<notin> set (Body (Body (apiServer ''aginx.example.com'' '':8011'') ! 2))"
  by (simp add: apiServer_def NewDirective_def AddBody_Directive AddBodyIn_Directive Let_def
        skeleton_of_spec_def HasPrefix_def)

subsection \<open>url.Parse and clusterConfiguration\<close>

lemma Index_char: "Index s [c] = Some i \<Longrightarrow> i < length s \<and> s ! i = c"
proof (induction s arbitrary: i)
  case Nil
  then show ?case by simp
next
  case (Cons a s)
  then show ?case
    by (cases "a = c") (auto simp: HasPrefix_def)
qed


lemma unescape_decode_Nil: "unescape_decode mode s = [] \<longleftrightarrow> s = []"
  by (cases s) (auto split: list.splits)

lemma unescape_decode_slash:
  "unescape_decode mode (CHR ''/'' # s) = CHR ''/'' # unescape_decode mode s"
  by simp

lemma escape_Nil: "escape s mode = [] \<longleftrightarrow> s = []"
  by (cases s) (auto simp: escape_def escape_byte_def)

lemma escape_slash: "escape (CHR ''/'' # s) encodePath = CHR ''/'' # escape s encodePath"
  by (simp add: escape_def escape_byte_def shouldEscape_def isAlnum_def byte_in_def)

lemma EscapedPath_Nil: "EscapedPath u = [] \<longleftrightarrow> Path u = []"
  by (auto simp: EscapedPath_def escape_Nil unescape_def unescape_decode_Nil split: option.splits)

lemma url_split_keep:
  "url_split s ''/'' False = (a, r) \<Longrightarrow> rooted r"
  by (auto simp: rooted_def url_split_def hd_drop_conv_nth split: option.splits dest: Index_char)

lemma setPath_rooted:
  assumes "setPath u p = Inr u'" "rooted p"
  shows "rooted (Path u') \<and> rooted (RawPath u') \<and> Scheme u' = Scheme u"
proof (cases p)
  case Nil
  with assms show ?thesis
    by (auto simp: setPath_def unescape_def rooted_def split: option.splits)
next
  case (Cons c s)
  with assms have c: "c = CHR ''/''" by (simp add: rooted_def)
  from assms Cons c show ?thesis
    by (auto simp: setPath_def unescape_def rooted_def split: option.splits if_splits)
qed

lemma EscapedPath_rooted:
  assumes "rooted (Path u)" "rooted (RawPath u)"
  shows "rooted (EscapedPath u)"
proof (cases "Path u")
  case Nil
  then show ?thesis using assms by (auto simp: EscapedPath_def rooted_def escape_def)
next
  case (Cons c s)
  with assms have "c = CHR ''/''" by (simp add: rooted_def)
  with Cons assms show ?thesis
    by (auto simp: EscapedPath_def rooted_def escape_slash)
qed


lemma HasPrefix_slash: "HasPrefix s ''/'' \<Longrightarrow> rooted s"
  by (cases s) (auto simp: HasPrefix_def rooted_def)

lemma setPath_Scheme: "setPath u p = Inr u' \<Longrightarrow> Scheme u' = Scheme u"
  by (auto simp: setPath_def split: sum.splits)


lemma setPath_new:
  assumes "setPath u p = Inr u'" "rooted p"
  shows "rooted (Path u') \<and> rooted (RawPath u')"
  using setPath_rooted[OF assms] by simp


lemma parse_rooted:
  assumes "parse rawurl v = Inr u" "Scheme u \<noteq> []"
  shows "rooted (Path u) \<and> rooted (RawPath u)"
  using assms
  apply (simp add: parse_def Let_def split: if_splits sum.splits prod.splits)
  subgoal by (auto simp: new_URL_def)
  subgoal by (auto simp: new_URL_def rooted_def)
  subgoal by (blast dest: url_split_keep setPath_new)
  subgoal by (frule setPath_Scheme) (auto simp: new_URL_def dest: HasPrefix_slash setPath_new)
  subgoal by (auto simp: new_URL_def rooted_def)
  subgoal by (blast dest: url_split_keep setPath_new)
  subgoal by (frule setPath_Scheme) (auto simp: new_URL_def dest: HasPrefix_slash setPath_new)
  done

lemma Parse_rooted:
  assumes "Parse cluster = Inr u" "Scheme u \<noteq> []"
  shows "rooted (EscapedPath u)"
proof -
  obtain a frag where sp: "url_split cluster ''#'' True = (a, frag)"
    by (cases "url_split cluster ''#'' True")
  with assms obtain u0 where p: "parse a False = Inr u0"
    and u: "u = u0 \<or> (\<exists>f. u = u0\<lparr>Fragment := f\<rparr>)"
    by (auto simp: Parse_def split: sum.splits if_splits)
  from u assms(2) have "Scheme u0 \<noteq> []" by auto
  from parse_rooted[OF p this] u have "rooted (Path u) \<and> rooted (RawPath u)" by auto
  then show ?thesis by (simp add: EscapedPath_rooted)
qed

lemma Parse_Nil: "Parse [] = Inr new_URL"
  by code_simp

lemma slice_from_1: "slice_from s (Suc 0) = (case s of [] \<Rightarrow> Inl SliceBoundsOutOfRange | c # r \<Rightarrow> Inr r)"
  by (cases s) (auto simp: slice_from_def)

lemma clusterConfiguration_consul:
  assumes "Parse cluster = Inr config" "Scheme config = ''consul''"
  shows "clusterConfiguration bk cluster =
     (case EscapedPath config of
        [] \<Rightarrow> Inl SliceBoundsOutOfRange
      | c # folder \<Rightarrow>
          (case New_err bk (Host config) folder (Get (Query config) ''token'') of
             Some err \<Rightarrow> Inl (PanicIfError err)
           | None \<Rightarrow> Inr (Some (ConsulStorage (Host config) folder (Get (Query config) ''token'')))))"
proof -
  have "cluster \<noteq> []"
    using assms by (auto simp: Parse_Nil new_URL_def)
  with assms show ?thesis
    by (simp add: clusterConfiguration_def slice_from_1 New_def split: list.splits option.splits)
qed

lemma clusterConfiguration_other:
  assumes "cluster \<noteq> []" "Parse cluster = Inr config" "Scheme config \<noteq> ''consul''"
  shows "clusterConfiguration bk cluster = Inr None"
  using assms by (simp add: clusterConfiguration_def)

lemma clusterConfiguration_Nil:
  "clusterConfiguration bk [] =
     (case System_err bk of None \<Rightarrow> Inr (Some FileStorage) | Some err \<Rightarrow> Inl (PanicIfError err))"
  by (simp add: clusterConfiguration_def System_def split: option.splits)

text \<open>
  C1. A non-empty connection string whose scheme is not a recognized backend scheme
  should end the start-up in \<open>clusterConfiguration\<close>. At \<open>zk://127.0.0.1:2182/aginx\<close>,
  which the help text of the flag \<open>cluster\<close> gives as an example, the string parses, its
  scheme \<open>zk\<close> matches no case of the switch, and the function returns normally with the
  nil engine, whatever the backends do.
\<close>

theorem clusterConfiguration_zk_returns_nil:
  "Parse ''zk://127.0.0.1:2182/aginx'' =
     Inr (new_URL\<lparr>Scheme := ''zk'', Host := ''127.0.0.1:2182'', Path := ''/aginx''\<rparr>) \<and>
   clusterConfiguration bk ''zk://127.0.0.1:2182/aginx'' = Inr None"
proof -
  have p: "Parse ''zk://127.0.0.1:2182/aginx'' =
     Inr (new_URL\<lparr>Scheme := ''zk'', Host := ''127.0.0.1:2182'', Path := ''/aginx''\<rparr>)"
    by code_simp
  have "clusterConfiguration bk ''zk://127.0.0.1:2182/aginx'' = Inr None"
    by (rule clusterConfiguration_other[OF _ p]) (simp_all add: new_URL_def)
  with p show ?thesis by simp
qed

text \<open>
  C4, as amended. For the empty connection string, backend selection in
  \<open>clusterConfiguration\<close> resolves to the local file backend: the result is the engine
  of \<open>fileStorage.System()\<close>, or the panic of \<open>PanicIfError\<close> when that constructor fails.
\<close>

theorem clusterConfiguration_empty_string_file_backend:
  "clusterConfiguration bk [] =
     (case System_err bk of
        None \<Rightarrow> Inr (Some FileStorage)
      | Some err \<Rightarrow> Inl (PanicIfError err))"
  by (rule clusterConfiguration_Nil)

text \<open>
  C4, as stated, fails at \<open>/etc/aginx\<close>: the string parses with an empty scheme, and the
  file backend is not selected; the function returns the nil engine.
\<close>

theorem clusterConfiguration_empty_scheme_counterexample:
  "Parse ''/etc/aginx'' = Inr (new_URL\<lparr>Path := ''/etc/aginx''\<rparr>) \<and>
   Scheme (new_URL\<lparr>Path := ''/etc/aginx''\<rparr>) = [] \<and>
   clusterConfiguration reachable ''/etc/aginx'' = Inr None \<and>
   clusterConfiguration reachable ''/etc/aginx'' \<noteq> Inr (Some FileStorage)"
proof -
  have p: "Parse ''/etc/aginx'' = Inr (new_URL\<lparr>Path := ''/etc/aginx''\<rparr>)"
    by code_simp
  have "clusterConfiguration reachable ''/etc/aginx'' = Inr None"
    by (rule clusterConfiguration_other[OF _ p]) (simp_all add: new_URL_def)
  with p show ?thesis by (simp add: new_URL_def)
qed

text \<open>
  C6, as amended. For every connection string that parses with the scheme \<open>consul\<close> and
  a non-empty path, the escaped path begins with a slash and \<open>clusterConfiguration\<close>
  constructs the consul backend from exactly the parsed components: the host (with its
  port) as the address, the escaped path without its leading slash as the folder, and
  the first value of the query parameter \<open>token\<close> as the credential; the result is that
  engine, or the panic of \<open>PanicIfError\<close> when \<open>consul.New\<close> fails on these arguments.
\<close>

theorem clusterConfiguration_consul_components:
  assumes "Parse cluster = Inr config" and "Scheme config = ''consul''" and "Path config \<noteq> []"
  shows "EscapedPath config = CHR ''/'' # drop 1 (EscapedPath config) \<and>
         clusterConfiguration bk cluster =
           (case New_err bk (Host config) (drop 1 (EscapedPath config))
                   (Get (Query config) ''token'') of
              None \<Rightarrow> Inr (Some (ConsulStorage (Host config) (drop 1 (EscapedPath config))
                                  (Get (Query config) ''token'')))
            | Some err \<Rightarrow> Inl (PanicIfError err))"
proof -
  from assms(3) have ne: "EscapedPath config \<noteq> []"
    by (simp add: EscapedPath_Nil)
  from assms(2) have "Scheme config \<noteq> []" by auto
  from Parse_rooted[OF assms(1) this] ne have "hd (EscapedPath config) = CHR ''/''"
    by (simp add: rooted_def)
  with ne obtain folder where f: "EscapedPath config = CHR ''/'' # folder"
    by (cases "EscapedPath config") auto
  from clusterConfiguration_consul[OF assms(1,2), of bk] f show ?thesis
    by (simp split: option.splits)
qed

theorem clusterConfiguration_consul_components_witness:
  "Parse ''consul://127.0.0.1:8500/aginx?token=authtoken'' =
     Inr (new_URL\<lparr>Scheme := ''consul'', Host := ''127.0.0.1:8500'', Path := ''/aginx'',
                  RawQuery := ''token=authtoken''\<rparr>) \<and>
   clusterConfiguration reachable ''consul://127.0.0.1:8500/aginx?token=authtoken'' =
     Inr (Some (ConsulStorage ''127.0.0.1:8500'' ''aginx'' ''authtoken''))"
proof -
  let ?u = "new_URL\<lparr>Scheme := ''consul'', Host := ''127.0.0.1:8500'', Path := ''/aginx'',
                     RawQuery := ''token=authtoken''\<rparr>"
  have p: "Parse ''consul://127.0.0.1:8500/aginx?token=authtoken'' = Inr ?u"
    by code_simp
  have s: "Scheme ?u = ''consul''" and n: "Path ?u \<noteq> []"
    by (simp_all add: new_URL_def)
  have e: "EscapedPath ?u = ''/aginx''"
    by code_simp
  have g: "Get (Query ?u) ''token'' = ''authtoken''"
    by code_simp
  have h: "Host ?u = ''127.0.0.1:8500''"
    by (simp add: new_URL_def)
  from clusterConfiguration_consul_components[OF p s n, of reachable] p show ?thesis
    by (simp add: e g h reachable_def)
qed

text \<open>
  C6, as stated, fails at \<open>consul://127.0.0.1:8500\<close>: the scheme is \<open>consul\<close>, the path is
  empty, and no backend is constructed; the function panics in the slice expression.
\<close>

theorem clusterConfiguration_consul_counterexample:
  "Parse ''consul://127.0.0.1:8500'' =
     Inr (new_URL\<lparr>Scheme := ''consul'', Host := ''127.0.0.1:8500''\<rparr>) \<and>
   clusterConfiguration reachable ''consul://127.0.0.1:8500'' = Inl SliceBoundsOutOfRange"
  by code_simp

text \<open>
  C8. For every connection string that parses with the scheme \<open>consul\<close>, the slice
  expression \<open>config.EscapedPath()[1:]\<close> is out of bounds, and \<open>clusterConfiguration\<close>
  panics there, exactly when the path of the connection string is empty: the slicing
  is safe only for a non-empty path.
\<close>

theorem clusterConfiguration_consul_slice_bounds:
  assumes "Parse cluster = Inr config" and "Scheme config = ''consul''"
  shows "(slice_from (EscapedPath config) 1 = Inl SliceBoundsOutOfRange) = (Path config = []) \<and>
         (clusterConfiguration bk cluster = Inl SliceBoundsOutOfRange) = (Path config = [])"
proof -
  have a: "(slice_from (EscapedPath config) 1 = Inl SliceBoundsOutOfRange) = (Path config = [])"
    using EscapedPath_Nil[of config]
    by (cases "EscapedPath config") (simp_all add: slice_from_def)
  have b: "(clusterConfiguration bk cluster = Inl SliceBoundsOutOfRange) = (Path config = [])"
    using EscapedPath_Nil[of config] clusterConfiguration_consul[OF assms, of bk]
    by (cases "EscapedPath config") (simp_all split: option.splits)
  from a b show ?thesis by simp
qed

theorem clusterConfiguration_consul_slice_bounds_witness:
  "Parse ''consul://host:8500'' = Inr (new_URL\<lparr>Scheme := ''consul'', Host := ''host:8500''\<rparr>) \<and>
   Path (new_URL\<lparr>Scheme := ''consul'', Host := ''host:8500''\<rparr>) = [] \<and>
   clusterConfiguration reachable ''consul://host:8500'' = Inl SliceBoundsOutOfRange"
proof -
  let ?u = "new_URL\<lparr>Scheme := ''consul'', Host := ''host:8500''\<rparr>"
  have p: "Parse ''consul://host:8500'' = Inr ?u"
    by code_simp
  have s: "Scheme ?u = ''consul''" and n: "Path ?u = []"
    by (simp_all add: new_URL_def)
  from clusterConfiguration_consul_slice_bounds[OF p s, of reachable] p n show ?thesis
    by simp
qed

subsection \<open>selectDirective\<close>

lemma index0_Cons: "index0 (x # xs) = Inr x"
  by (simp add: index0_def)

lemma index0_Nil: "index0 [] = Inl IndexOutOfRange"
  by (simp add: index0_def)

lemma Select_contract_Inr:
  "Select_contract sel \<Longrightarrow> sel queries = Inr ds \<Longrightarrow> \<exists>d rest. ds = d # rest"
  by (cases ds) (auto simp: Select_contract_def)

lemma selectDirective_empty_panics:
  "sel (mk [''http'', ''include'', ''*'', serverQuery domain]) = Inr [] \<Longrightarrow>
   selectDirective mk sel domain = Inl IndexOutOfRange"
  by (simp add: selectDirective_def index0_Nil)

lemma Select_example_contract: "Select_contract Select_example"
  by (simp add: Select_contract_def Select_example_def)

lemma serverQuery_example:
  "serverQuery ''aginx.example.com'' =
     ''server.[server_name('aginx.example.com') & listen('80')]''"
  by (simp add: serverQuery_def)

text \<open>
  C3. \<open>selectDirective\<close> implements the fallback: for every domain it first tries the
  query list that probes inside an include (\<open>http\<close>, \<open>include\<close>, \<open>*\<close>, the server query);
  if and only if that \<open>Select\<close> yields no match it tries the directly-present shape
  (\<open>http\<close>, the server query); it returns the query list and the first directive of the
  first of the two that yields a match, and a nil directive with the second query list
  when neither does. Yielding a match is an error-free \<open>Select\<close>, by the contract of
  \<open>Select\<close>.
\<close>

theorem selectDirective_fallback:
  assumes "Select_contract sel"
  shows "selectDirective mk sel domain =
     (case sel (mk [''http'', ''include'', ''*'', serverQuery domain]) of
        Inr (d # ds) \<Rightarrow> Inr (mk [''http'', ''include'', ''*'', serverQuery domain], Some d)
      | _ \<Rightarrow>
          (case sel (mk [''http'', serverQuery domain]) of
             Inr (d # ds) \<Rightarrow> Inr (mk [''http'', serverQuery domain], Some d)
           | _ \<Rightarrow> Inr (mk [''http'', serverQuery domain], None)))"
  using Select_contract_Inr[OF assms]
  by (fastforce simp: selectDirective_def index0_Cons Let_def split: sum.splits list.splits)

theorem selectDirective_fallback_witness:
  "Select_contract Select_example \<and>
   Select_example [''http'', ''include'', ''*'', serverQuery ''aginx.example.com''] = Inl NotFound \<and>
   selectDirective (\<lambda>qs. qs) Select_example ''aginx.example.com'' =
     Inr ([''http'', serverQuery ''aginx.example.com''],
          Some (apiServer ''aginx.example.com'' '':8011'')) \<and>
   selectDirective (\<lambda>qs. qs) Select_example ''other.example.com'' =
     Inr ([''http'', serverQuery ''other.example.com''], None)"
proof -
  have a: "selectDirective (\<lambda>qs. qs) Select_example ''aginx.example.com'' =
     Inr ([''http'', serverQuery ''aginx.example.com''],
          Some (apiServer ''aginx.example.com'' '':8011''))"
    using selectDirective_fallback[OF Select_example_contract, of "\<lambda>qs. qs" "''aginx.example.com''"]
    by (simp add: Select_example_def)
  have b: "selectDirective (\<lambda>qs. qs) Select_example ''other.example.com'' =
     Inr ([''http'', serverQuery ''other.example.com''], None)"
    using selectDirective_fallback[OF Select_example_contract, of "\<lambda>qs. qs" "''other.example.com''"]
    by (simp add: Select_example_def serverQuery_def)
  from a b Select_example_contract show ?thesis
    by (simp add: Select_example_def)
qed

text \<open>
  C5. When a \<open>Select\<close> for the exposure target yields matches, \<open>selectDirective\<close> takes
  the first match in document order, \<open>directives[0]\<close>, as the target: the first of the
  list for the include shape when that \<open>Select\<close> is error-free, otherwise the first of
  the list for the direct shape when that one is. Under the guarantee that an
  error-free \<open>Select\<close> returns at least one match, this access to the first element
  never fails: the function returns, a directive it returns is the head of the list
  that \<open>Select\<close> gave for the returned query list, and it returns the nil directive
  only when both \<open>Select\<close>s returned an error.
\<close>

theorem selectDirective_first_match:
  assumes "Select_contract sel"
  shows "(\<exists>queries directive.
            selectDirective mk sel domain = Inr (queries, directive) \<and>
            (case directive of
               Some d \<Rightarrow> (\<exists>rest. sel queries = Inr (d # rest))
             | None \<Rightarrow>
                 (\<exists>err. sel (mk [''http'', ''include'', ''*'', serverQuery domain]) = Inl err) \<and>
                 (\<exists>err. sel (mk [''http'', serverQuery domain]) = Inl err))) \<and>
         (\<forall>d rest. sel (mk [''http'', ''include'', ''*'', serverQuery domain]) = Inr (d # rest) \<longrightarrow>
            selectDirective mk sel domain =
              Inr (mk [''http'', ''include'', ''*'', serverQuery domain], Some d)) \<and>
         (\<forall>err d rest. sel (mk [''http'', ''include'', ''*'', serverQuery domain]) = Inl err \<and>
            sel (mk [''http'', serverQuery domain]) = Inr (d # rest) \<longrightarrow>
            selectDirective mk sel domain = Inr (mk [''http'', serverQuery domain], Some d))"
proof (intro conjI allI impI)
  show "\<exists>queries directive.
            selectDirective mk sel domain = Inr (queries, directive) \<and>
            (case directive of
               Some d \<Rightarrow> (\<exists>rest. sel queries = Inr (d # rest))
             | None \<Rightarrow>
                 (\<exists>err. sel (mk [''http'', ''include'', ''*'', serverQuery domain]) = Inl err) \<and>
                 (\<exists>err. sel (mk [''http'', serverQuery domain]) = Inl err))"
    using Select_contract_Inr[OF assms]
    by (fastforce simp: selectDirective_def index0_Cons Let_def split: sum.splits list.splits)
next
  fix d rest
  assume "sel (mk [''http'', ''include'', ''*'', serverQuery domain]) = Inr (d # rest)"
  then show "selectDirective mk sel domain =
      Inr (mk [''http'', ''include'', ''*'', serverQuery domain], Some d)"
    by (simp add: selectDirective_def index0_Cons)
next
  fix err d rest
  assume "sel (mk [''http'', ''include'', ''*'', serverQuery domain]) = Inl err \<and>
          sel (mk [''http'', serverQuery domain]) = Inr (d # rest)"
  then show "selectDirective mk sel domain = Inr (mk [''http'', serverQuery domain], Some d)"
    by (simp add: selectDirective_def index0_Cons)
qed

theorem selectDirective_first_match_witness:
  "Select_contract Select_example \<and>
   Select_example [''http'', ''include'', ''*'', serverQuery ''aginx.example.com''] = Inl NotFound \<and>
   Select_example [''http'', serverQuery ''aginx.example.com''] =
     Inr [apiServer ''aginx.example.com'' '':8011''] \<and>
   selectDirective (\<lambda>qs. qs) Select_example ''aginx.example.com'' =
     Inr ([''http'', serverQuery ''aginx.example.com''],
          Some (apiServer ''aginx.example.com'' '':8011''))"
proof -
  have a: "Select_example [''http'', ''include'', ''*'', serverQuery ''aginx.example.com''] =
             Inl NotFound"
    by (simp add: Select_example_def)
  have b: "Select_example [''http'', serverQuery ''aginx.example.com''] =
             Inr [apiServer ''aginx.example.com'' '':8011'']"
    by (simp add: Select_example_def)
  from selectDirective_first_match[OF Select_example_contract,
      of "\<lambda>qs. qs" "''aginx.example.com''"] a b
  have "selectDirective (\<lambda>qs. qs) Select_example ''aginx.example.com'' =
     Inr ([''http'', serverQuery ''aginx.example.com''],
          Some (apiServer ''aginx.example.com'' '':8011''))"
    by blast
  with a b Select_example_contract show ?thesis by blast
qed

subsection \<open>exposeApi\<close>

lemma selectDirective_found:
  assumes "Select_contract sel"
    and "(\<exists>d ds. sel (mk [''http'', ''include'', ''*'', serverQuery domain]) = Inr (d # ds)) \<or>
         (\<exists>d ds. sel (mk [''http'', serverQuery domain]) = Inr (d # ds))"
  shows "\<exists>queries d. selectDirective mk sel domain = Inr (queries, Some d)"
  using assms(2) Select_contract_Inr[OF assms(1)]
  by (fastforce simp: selectDirective_def index0_Cons Let_def split: sum.splits list.splits)

lemma selectDirective_None:
  assumes "selectDirective mk sel domain = Inr (queries, None)"
  shows "(\<exists>e. sel (mk [''http'', ''include'', ''*'', serverQuery domain]) = Inl e) \<and>
         (\<exists>e. sel (mk [''http'', serverQuery domain]) = Inl e)"
  using assms
  by (auto simp: selectDirective_def index0_def Let_def split: sum.splits list.splits)

lemma exposeApi_empty_domain:
  assumes "getString up env fl ''api'' = Inr address" and "getString up env fl ''expose'' = Inr []"
  shows "exposeApi up env fl ops engine w = Inr (w, [])"
  using assms by (simp add: exposeApi_def)

lemma exposeApi_found:
  assumes "getString up env fl ''api'' = Inr address" and "getString up env fl ''expose'' = Inr domain"
    and "NewClient ops engine w = Inr api"
    and "selectDirective (Queries ops) (Select ops api) domain = Inr (queries, Some d)"
  shows "exposeApi up env fl ops engine w = Inr (w, [])"
  using assms by (simp add: exposeApi_def)

lemma exposeApi_cases:
  assumes "getString up env fl ''api'' = Inr address" and "getString up env fl ''expose'' = Inr domain"
    and "exposeApi up env fl ops engine w = Inr (w', calls)"
  shows "domain = [] \<and> w' = w \<and> calls = [] \<or>
         (\<exists>api queries d. domain \<noteq> [] \<and> NewClient ops engine w = Inr api \<and>
            selectDirective (Queries ops) (Select ops api) domain = Inr (queries, Some d) \<and>
            w' = w \<and> calls = []) \<or>
         (\<exists>api queries api' w1. domain \<noteq> [] \<and> NewClient ops engine w = Inr api \<and>
            selectDirective (Queries ops) (Select ops api) domain = Inr (queries, None) \<and>
            Add ops api (Queries ops [''http'']) (apiServer domain address) w = Inr (api', w1) \<and>
            StoreConfiguration ops engine (Configuration ops api') w1 = Inr w' \<and>
            calls = [AddCall (Queries ops [''http'']) (apiServer domain address),
                     StoreCall (Configuration ops api')])"
  using assms
  by (auto simp: exposeApi_def split: if_splits sum.splits prod.splits)


lemma exposeApi_idempotent:
  assumes a: "getString up env fl ''api'' = Inr address"
    and d: "getString up env fl ''expose'' = Inr domain"
    and c: "\<And>api. Select_contract (Select ops api)"
    and l: "Add_then_found ops engine domain address"
    and r: "exposeApi up env fl ops engine w = Inr (w', calls)"
  shows "exposeApi up env fl ops engine w' = Inr (w', [])"
proof -
  from exposeApi_cases[OF a d r]
  consider (empty) "domain = []" "w' = w"
    | (found) api queries dir where "NewClient ops engine w = Inr api"
        "selectDirective (Queries ops) (Select ops api) domain = Inr (queries, Some dir)" "w' = w"
    | (added) api api' w1 where "NewClient ops engine w = Inr api"
        "Add ops api (Queries ops [''http'']) (apiServer domain address) w = Inr (api', w1)"
        "StoreConfiguration ops engine (Configuration ops api') w1 = Inr w'"
    by blast
  then show ?thesis
  proof cases
    case empty
    with a d show ?thesis by (simp add: exposeApi_empty_domain)
  next
    case found
    with exposeApi_found[OF a d found(1,2)] show ?thesis by simp
  next
    case added
    with l obtain api2 d2 ds where n: "NewClient ops engine w' = Inr api2"
      and s: "Select ops api2 (Queries ops [''http'', serverQuery domain]) = Inr (d2 # ds)"
      unfolding Add_then_found_def by blast
    from selectDirective_found[OF c[of api2], of "Queries ops" domain] s
    obtain queries dir where
      "selectDirective (Queries ops) (Select ops api2) domain = Inr (queries, Some dir)"
      by blast
    from exposeApi_found[OF a d n this] show ?thesis .
  qed
qed

lemma apiServer_selected:
  "Name (apiServer domain address) = ''server'' \<and> listens_80 (apiServer domain address) \<and>
   server_name_of (apiServer domain address) = domain"
  by (simp add: apiServer_value listens_80_def server_name_of_def)

lemma example_ops_contract: "Select_contract (Select example_ops api)"
  by (simp add: Select_contract_def example_ops_def split: list.splits)

lemma example_ops_found: "Add_then_found example_ops engine domain address"
proof -
  have "filter (\<lambda>d. Name d = ''server'' \<and> listens_80 d \<and>
                   [''http'', serverQuery domain] = [''http'', serverQuery (server_name_of d)])
          (api @ [apiServer domain address]) \<noteq> []" for api
    by (simp add: apiServer_selected)
  then show ?thesis
    by (auto simp: Add_then_found_def example_ops_def split: list.splits if_splits)
qed

lemma example_flags_api: "getString (\<lambda>s. s) Map.empty example_flags ''api'' = Inr '':8011''"
  by (simp add: getString_def example_flags_def Getenv_def GetString_def)

lemma example_flags_expose:
  "getString (\<lambda>s. s) Map.empty example_flags ''expose'' = Inr ''aginx.example.com''"
  by (simp add: getString_def example_flags_def Getenv_def GetString_def)

lemma example_first_run:
  "exposeApi (\<lambda>s. s) Map.empty example_flags example_ops (Some FileStorage) [] =
     Inr ([apiServer ''aginx.example.com'' '':8011''],
          [AddCall [''http''] (apiServer ''aginx.example.com'' '':8011''),
           StoreCall [apiServer ''aginx.example.com'' '':8011'']])"
  by (simp add: exposeApi_def example_flags_api example_flags_expose example_ops_def
        selectDirective_def)

text \<open>
  C10. \<open>exposeApi\<close> is a no-op under two conditions and idempotent. With the flags read
  as \<open>address\<close> and \<open>domain\<close>: when the domain is empty, and when a \<open>Select\<close> for the
  server block of the domain yields a match (inside an include or directly under
  \<open>http\<close>), it makes no \<open>Add\<close> and no \<open>StoreConfiguration\<close> and returns the state as it
  was; when it makes a call or changes the state, the domain is not empty, both
  \<open>Select\<close>s found nothing, and the calls are one \<open>Add\<close> of the block of \<open>apiServer\<close>
  under \<open>http\<close> followed by one \<open>StoreConfiguration\<close>; and, the client and the storage
  engine keeping their contracts (an error-free \<open>Select\<close> has a match; the block added
  and stored is found by a later client), a second run on the state that a successful
  run returned makes no call and returns that state.
\<close>

theorem exposeApi_noop_and_idempotent:
  assumes "getString up env fl ''api'' = Inr address"
    and "getString up env fl ''expose'' = Inr domain"
  shows "(domain = [] \<longrightarrow> exposeApi up env fl ops engine w = Inr (w, [])) \<and>
    (\<forall>api. NewClient ops engine w = Inr api \<and> Select_contract (Select ops api) \<and>
       ((\<exists>d ds. Select ops api (Queries ops [''http'', ''include'', ''*'', serverQuery domain])
                  = Inr (d # ds)) \<or>
        (\<exists>d ds. Select ops api (Queries ops [''http'', serverQuery domain]) = Inr (d # ds)))
       \<longrightarrow> exposeApi up env fl ops engine w = Inr (w, [])) \<and>
    (\<forall>w' calls. exposeApi up env fl ops engine w = Inr (w', calls) \<and> (calls \<noteq> [] \<or> w' \<noteq> w) \<longrightarrow>
       domain \<noteq> [] \<and>
       (\<exists>api api' w1.
          NewClient ops engine w = Inr api \<and>
          (\<exists>e. Select ops api (Queries ops [''http'', ''include'', ''*'', serverQuery domain])
                 = Inl e) \<and>
          (\<exists>e. Select ops api (Queries ops [''http'', serverQuery domain]) = Inl e) \<and>
          Add ops api (Queries ops [''http'']) (apiServer domain address) w = Inr (api', w1) \<and>
          StoreConfiguration ops engine (Configuration ops api') w1 = Inr w' \<and>
          calls = [AddCall (Queries ops [''http'']) (apiServer domain address),
                   StoreCall (Configuration ops api')])) \<and>
    (\<forall>w' calls. (\<forall>api. Select_contract (Select ops api)) \<and>
       Add_then_found ops engine domain address \<and>
       exposeApi up env fl ops engine w = Inr (w', calls)
       \<longrightarrow> exposeApi up env fl ops engine w' = Inr (w', []))"
proof (intro conjI allI impI)
  assume "domain = []"
  with assms show "exposeApi up env fl ops engine w = Inr (w, [])"
    by (simp add: exposeApi_empty_domain)
next
  fix api
  assume h: "NewClient ops engine w = Inr api \<and> Select_contract (Select ops api) \<and>
       ((\<exists>d ds. Select ops api (Queries ops [''http'', ''include'', ''*'', serverQuery domain])
                  = Inr (d # ds)) \<or>
        (\<exists>d ds. Select ops api (Queries ops [''http'', serverQuery domain]) = Inr (d # ds)))"
  then obtain queries dir where
    "selectDirective (Queries ops) (Select ops api) domain = Inr (queries, Some dir)"
    using selectDirective_found[of "Select ops api" "Queries ops" domain] by blast
  with h assms show "exposeApi up env fl ops engine w = Inr (w, [])"
    by (blast intro: exposeApi_found)
next
  fix w' calls
  assume h: "exposeApi up env fl ops engine w = Inr (w', calls) \<and> (calls \<noteq> [] \<or> w' \<noteq> w)"
  with exposeApi_cases[OF assms, of ops engine w w' calls]
  obtain api queries api' w1 where k: "domain \<noteq> []" "NewClient ops engine w = Inr api"
      "selectDirective (Queries ops) (Select ops api) domain = Inr (queries, None)"
      "Add ops api (Queries ops [''http'']) (apiServer domain address) w = Inr (api', w1)"
      "StoreConfiguration ops engine (Configuration ops api') w1 = Inr w'"
      "calls = [AddCall (Queries ops [''http'']) (apiServer domain address),
                StoreCall (Configuration ops api')]"
    by blast
  from k(1) show "domain \<noteq> []" .
  from selectDirective_None[OF k(3)] k(2,4,5,6)
  show "\<exists>api api' w1.
          NewClient ops engine w = Inr api \<and>
          (\<exists>e. Select ops api (Queries ops [''http'', ''include'', ''*'', serverQuery domain])
                 = Inl e) \<and>
          (\<exists>e. Select ops api (Queries ops [''http'', serverQuery domain]) = Inl e) \<and>
          Add ops api (Queries ops [''http'']) (apiServer domain address) w = Inr (api', w1) \<and>
          StoreConfiguration ops engine (Configuration ops api') w1 = Inr w' \<and>
          calls = [AddCall (Queries ops [''http'']) (apiServer domain address),
                   StoreCall (Configuration ops api')]"
    by blast
next
  fix w' calls
  assume h: "(\<forall>api. Select_contract (Select ops api)) \<and>
       Add_then_found ops engine domain address \<and>
       exposeApi up env fl ops engine w = Inr (w', calls)"
  then show "exposeApi up env fl ops engine w' = Inr (w', [])"
    using exposeApi_idempotent[OF assms, of ops engine w w' calls] by blast
qed

theorem exposeApi_noop_and_idempotent_witness:
  "getString (\<lambda>s. s) Map.empty example_flags ''api'' = Inr '':8011'' \<and>
   getString (\<lambda>s. s) Map.empty example_flags ''expose'' = Inr ''aginx.example.com'' \<and>
   (\<forall>api. Select_contract (Select example_ops api)) \<and>
   Add_then_found example_ops (Some FileStorage) ''aginx.example.com'' '':8011'' \<and>
   exposeApi (\<lambda>s. s) Map.empty example_flags example_ops (Some FileStorage) [] =
     Inr ([apiServer ''aginx.example.com'' '':8011''],
          [AddCall [''http''] (apiServer ''aginx.example.com'' '':8011''),
           StoreCall [apiServer ''aginx.example.com'' '':8011'']]) \<and>
   exposeApi (\<lambda>s. s) Map.empty example_flags example_ops (Some FileStorage)
       [apiServer ''aginx.example.com'' '':8011''] =
     Inr ([apiServer ''aginx.example.com'' '':8011''], [])"
  using exposeApi_noop_and_idempotent[OF example_flags_api example_flags_expose,
      of example_ops "Some FileStorage" "[]"]
    example_ops_contract example_ops_found example_first_run
    example_flags_api example_flags_expose
  by blast

subsection \<open>The server command\<close>

lemma ServerCmd_daemon:
  assumes "getString up env fl ''cluster'' = Inr cluster"
    and "ServerCmd up env fl bk ops mgr w = Inr (daemon, w')"
  shows "\<exists>engine address. clusterConfiguration bk cluster = Inr engine \<and>
           daemon = (case asService engine of Some service \<Rightarrow> [service] | None \<Rightarrow> []) @
                    [HttpService address, SupervisterService, ManagerService]"
  using assms
  by (auto simp: ServerCmd_def NewDaemon_def daemon_Add_def
        split: sum.splits option.splits prod.splits)

lemma consul_flags_cluster:
  "getString (\<lambda>s. s) Map.empty consul_flags ''cluster'' = Inr ''consul://127.0.0.1:8500/aginx?token=authtoken''"
  by (simp add: getString_def consul_flags_def Getenv_def GetString_def)

lemma consul_cluster:
  "clusterConfiguration reachable ''consul://127.0.0.1:8500/aginx?token=authtoken'' =
     Inr (Some (ConsulStorage ''127.0.0.1:8500'' ''aginx'' ''authtoken''))"
  by code_simp

lemma consul_run:
  "ServerCmd (\<lambda>s. s) Map.empty consul_flags reachable example_ops (\<lambda>engine. None) [] =
     Inr ([StorageService (ConsulStorage ''127.0.0.1:8500'' ''aginx'' ''authtoken''),
           HttpService '':8011'', SupervisterService, ManagerService], [])"
  by (simp add: ServerCmd_def consul_cluster exposeApi_def asService_def implementsService_def
        NewDaemon_def daemon_Add_def getString_def consul_flags_def Getenv_def GetString_def)

lemma example_flags_others:
  "getString (\<lambda>s. s) Map.empty example_flags ''security'' = Inr []"
  "getString (\<lambda>s. s) Map.empty example_flags ''cluster'' = Inr []"
  by (simp_all add: getString_def example_flags_def Getenv_def GetString_def)

lemma file_run:
  "ServerCmd (\<lambda>s. s) Map.empty example_flags reachable example_ops (\<lambda>engine. None) [] =
     Inr ([HttpService '':8011'', SupervisterService, ManagerService],
          [apiServer ''aginx.example.com'' '':8011''])"
  by (simp add: ServerCmd_def clusterConfiguration_Nil reachable_def example_first_run
        asService_def implementsService_def NewDaemon_def daemon_Add_def
        example_flags_api example_flags_others)

text \<open>
  C7. In a run of the server command that reaches \<open>Start\<close>, the selected storage engine
  is among the services of the daemon if and only if it implements the capability
  \<open>Service\<close>; so the local file backend is never added to the service set, and a consul
  backend always is.
\<close>

theorem ServerCmd_registers_engine_iff_Service:
  assumes "getString up env fl ''cluster'' = Inr cluster"
    and "ServerCmd up env fl bk ops mgr w = Inr (daemon, w')"
  shows "\<exists>engine. clusterConfiguration bk cluster = Inr engine \<and>
      (\<forall>e. (StorageService e \<in> set daemon) = (engine = Some e \<and> implementsService e)) \<and>
      (engine = Some FileStorage \<longrightarrow> (\<forall>e. StorageService e \<notin> set daemon)) \<and>
      (\<forall>a f t. engine = Some (ConsulStorage a f t) \<longrightarrow>
                 StorageService (ConsulStorage a f t) \<in> set daemon)"
proof -
  from ServerCmd_daemon[OF assms] obtain engine address where
    e: "clusterConfiguration bk cluster = Inr engine" and
    d: "daemon = (case asService engine of Some service \<Rightarrow> [service] | None \<Rightarrow> []) @
                 [HttpService address, SupervisterService, ManagerService]"
    by blast
  have "(\<forall>e. (StorageService e \<in> set daemon) = (engine = Some e \<and> implementsService e)) \<and>
      (engine = Some FileStorage \<longrightarrow> (\<forall>e. StorageService e \<notin> set daemon)) \<and>
      (\<forall>a f t. engine = Some (ConsulStorage a f t) \<longrightarrow>
                 StorageService (ConsulStorage a f t) \<in> set daemon)"
    unfolding d
    by (auto simp: asService_def implementsService_def split: option.splits engine.splits)
  with e show ?thesis by blast
qed

theorem ServerCmd_registers_engine_iff_Service_witness:
  "getString (\<lambda>s. s) Map.empty consul_flags ''cluster'' =
     Inr ''consul://127.0.0.1:8500/aginx?token=authtoken'' \<and>
   ServerCmd (\<lambda>s. s) Map.empty consul_flags reachable example_ops (\<lambda>engine. None) [] =
     Inr ([StorageService (ConsulStorage ''127.0.0.1:8500'' ''aginx'' ''authtoken''),
           HttpService '':8011'', SupervisterService, ManagerService], []) \<and>
   (\<exists>engine.
      clusterConfiguration reachable ''consul://127.0.0.1:8500/aginx?token=authtoken'' =
        Inr engine \<and>
      engine = Some (ConsulStorage ''127.0.0.1:8500'' ''aginx'' ''authtoken'') \<and>
      StorageService (ConsulStorage ''127.0.0.1:8500'' ''aginx'' ''authtoken'')
        \<in> set [StorageService (ConsulStorage ''127.0.0.1:8500'' ''aginx'' ''authtoken''),
                HttpService '':8011'', SupervisterService, ManagerService]) \<and>
   ServerCmd (\<lambda>s. s) Map.empty example_flags reachable example_ops (\<lambda>engine. None) [] =
     Inr ([HttpService '':8011'', SupervisterService, ManagerService],
          [apiServer ''aginx.example.com'' '':8011''])"
  using ServerCmd_registers_engine_iff_Service[OF consul_flags_cluster consul_run]
    consul_flags_cluster consul_run consul_cluster file_run
  by simp

end
